theory Spec2Isabelle
  imports Complex_Main "HOL-Library.AList" "HOL-Library.Sublist"
begin

section \<open>The pipeline coordinator of script-gen\<close>

text \<open>
  A shallow embedding of \<^verbatim>\<open>src/pipeline_coordinator.py\<close> (class
  \<^verbatim>\<open>PipelineCoordinator\<close>). The five methods \<^verbatim>\<open>run_agent\<close>,
  \<^verbatim>\<open>find_latest_output_file\<close>, \<^verbatim>\<open>validate_inputs\<close>,
  \<^verbatim>\<open>run_complete_pipeline\<close> and \<^verbatim>\<open>generate_pipeline_report\<close> are
  translated one by one. Each of them becomes a function that takes the world before the
  call and returns its result together with the world after the call.

  Everything the methods ask of Python and of the operating system (the clock, the file
  system, \<^verbatim>\<open>subprocess.run\<close>, \<^verbatim>\<open>shutil.copy\<close>, float formatting) is a
  field of the record \<open>runtime\<close>: an arbitrary function on an arbitrary type \<open>'e\<close> of
  states of the outside world. Console output (\<^verbatim>\<open>print\<close>) is not modelled; no
  value of the program depends on it.
\<close>

subsection \<open>The outside world\<close>

text \<open>Readings of \<^verbatim>\<open>time.time()\<close> and \<^verbatim>\<open>os.path.getmtime\<close>: seconds.
  Python's floats are taken as real numbers; rounding is not modelled.\<close>

type_synonym time = real

text \<open>What \<^verbatim>\<open>subprocess.run(cmd, capture_output=True, text=True, timeout=t)\<close> can do:
  return a \<^verbatim>\<open>CompletedProcess\<close> (return code, standard output, standard error),
  raise \<^verbatim>\<open>subprocess.TimeoutExpired\<close> (the child did not exit within \<open>t\<close>
  seconds and was killed), or raise another exception, here with its text
  \<^verbatim>\<open>str(e)\<close>: the child could not be launched, or the child exited but its
  output cannot be decoded as text, for instance. In \<^verbatim>\<open>run_agent\<close> the
  last two are the branches \<^verbatim>\<open>except subprocess.TimeoutExpired\<close> and
  \<^verbatim>\<open>except Exception\<close>.\<close>

datatype proc_outcome =
    Completed int string string
  | TimeoutExpired
  | Raised string

record 'e runtime =
  sys_executable :: string
  time_time :: "'e \<Rightarrow> time \<times> 'e"
  path_exists :: "string \<Rightarrow> 'e \<Rightarrow> bool"
  listdir :: "'e \<Rightarrow> string list option"
  getmtime :: "string \<Rightarrow> 'e \<Rightarrow> time option"
  subprocess_run :: "string list \<Rightarrow> time \<Rightarrow> 'e \<Rightarrow> proc_outcome \<times> 'e"
  shutil_copy :: "string \<Rightarrow> string \<Rightarrow> 'e \<Rightarrow> bool \<times> 'e"
  format_2f :: "time \<Rightarrow> string"

text \<open>
  \<^item> \<open>listdir\<close> is \<^verbatim>\<open>os.listdir('.')\<close>: the names in the order the system lists
    them, or \<open>None\<close> when the call raises.
  \<^item> \<open>getmtime\<close> is \<^verbatim>\<open>os.path.getmtime\<close>; \<open>None\<close> when it raises (the entry
    has vanished, or is a dangling link).
  \<^item> \<open>shutil_copy\<close> returns \<open>False\<close> when \<^verbatim>\<open>shutil.copy\<close> raises.
  \<^item> \<open>format_2f\<close> is Python's \<^verbatim>\<open>format(x, '.2f')\<close>.
\<close>

text \<open>The trace is a ghost component: it records, in order, every call of
  \<^verbatim>\<open>subprocess.run\<close> (command, timeout, what happened), every call of the artifact
  locator (pattern, result) and every \<^verbatim>\<open>shutil.copy\<close> (source, destination,
  whether it returned). The program never reads it.\<close>

datatype event =
    Launched "string list" time proc_outcome
  | Located string "string option"
  | Copied string string bool

record 'e world =
  ext :: 'e
  trace :: "event list"

subsection \<open>Strings\<close>

definition startswith :: "string \<Rightarrow> string \<Rightarrow> bool" where
  "startswith s p = prefix p s"

definition endswith :: "string \<Rightarrow> string \<Rightarrow> bool" where
  "endswith s p = suffix p s"

text \<open>\<^verbatim>\<open>s.endswith((p1, p2, ...))\<close> with a tuple of suffixes.\<close>

definition endswith_any :: "string \<Rightarrow> string list \<Rightarrow> bool" where
  "endswith_any s ps = list_ex (endswith s) ps"

text \<open>\<^verbatim>\<open>str.lower\<close> on ASCII letters; other characters are left as they are.\<close>

definition char_lower :: "char \<Rightarrow> char" where
  "char_lower c =
     (case map_of (zip ''ABCDEFGHIJKLMNOPQRSTUVWXYZ'' ''abcdefghijklmnopqrstuvwxyz'') c of
        Some d \<Rightarrow> d
      | None \<Rightarrow> c)"

definition lower :: "string \<Rightarrow> string" where
  "lower s = map char_lower s"

definition digit_char :: "nat \<Rightarrow> char" where
  "digit_char n = ''0123456789'' ! (n mod 10)"

function str_nat :: "nat \<Rightarrow> string" where
  "str_nat n = (if n < 10 then [digit_char n] else str_nat (n div 10) @ [digit_char (n mod 10)])"
  by pat_completeness auto
termination
  by (relation "measure id") auto

declare str_nat.simps [simp del]

text \<open>\<^verbatim>\<open>str(i)\<close> for an integer.\<close>

definition str_int :: "int \<Rightarrow> string" where
  "str_int i = (if i < 0 then CHR ''-'' # str_nat (nat (- i)) else str_nat (nat i))"

text \<open>\<^verbatim>\<open>os.path.join(a, b)\<close> for a relative \<open>b\<close> (POSIX).\<close>

definition path_join :: "string \<Rightarrow> string \<Rightarrow> string" where
  "path_join a b =
     (if a = [] then b else if last a = CHR ''/'' then a @ b else a @ ''/'' @ b)"

text \<open>\<^verbatim>\<open>xs.sort(key=key, reverse=True)\<close>: Python's sort is stable, and with
  \<^verbatim>\<open>reverse=True\<close> it reverses the list, sorts it stably in ascending order and
  reverses the result, so that entries with equal keys keep their order.\<close>

definition sort_reverse :: "('a \<Rightarrow> 'k::linorder) \<Rightarrow> 'a list \<Rightarrow> 'a list" where
  "sort_reverse key xs = rev (sort_key key (rev xs))"

subsection \<open>The coordinator and its dictionaries\<close>

text \<open>The attributes that \<^verbatim>\<open>__init__\<close> sets. The constructor itself (which
  derives \<open>pipeline_id\<close> from the clock and creates the results directory) is not
  modelled: a coordinator is any value of this record.\<close>

record coordinator =
  openai_api_key :: string
  competitor_data_path :: string
  pipeline_id :: string
  results_dir :: string

text \<open>The dictionary that \<^verbatim>\<open>run_agent\<close> returns. A key that a branch does not
  set is \<open>None\<close>; \<^verbatim>\<open>"success"\<close> is set by every branch.\<close>

record stage_result =
  sr_success :: bool
  sr_error :: "string option"
  sr_stdout :: "string option"
  sr_stderr :: "string option"
  sr_duration :: "time option"
  sr_stage :: "string option"

text \<open>The dictionary that \<^verbatim>\<open>validate_inputs\<close> returns.\<close>

record validation =
  valid :: bool
  issues :: "string list"

text \<open>The dictionary that \<^verbatim>\<open>run_complete_pipeline\<close> returns. A key that is not
  in the dictionary is \<open>None\<close>. \<^verbatim>\<open>"stages"\<close> is itself a dictionary; Python
  dictionaries keep insertion order, so it is an association list, and an assignment
  \<^verbatim>\<open>d[k] = v\<close> is \<^const>\<open>AList.update\<close> (replace in place, or append).\<close>

record pipeline_results =
  pr_pipeline_id :: "string option"
  pr_start_time :: "time option"
  pr_cbr_file :: "string option"
  pr_target_duration :: "int option"
  pr_stages :: "(string \<times> stage_result) list option"
  pr_success :: "bool option"
  pr_failed_at :: "string option"
  pr_error :: "string option"
  pr_issues :: "string list option"
  pr_end_time :: "time option"
  pr_total_duration :: "time option"
  pr_final_output_file :: "string option"
  pr_results_directory :: "string option"

definition empty_results :: pipeline_results where
  "empty_results =
     \<lparr>pr_pipeline_id = None, pr_start_time = None, pr_cbr_file = None,
      pr_target_duration = None, pr_stages = None, pr_success = None, pr_failed_at = None,
      pr_error = None, pr_issues = None, pr_end_time = None, pr_total_duration = None,
      pr_final_output_file = None, pr_results_directory = None\<rparr>"

text \<open>\<^verbatim>\<open>pipeline_results["stages"][k] = v\<close>.\<close>

definition set_stage :: "string \<Rightarrow> stage_result \<Rightarrow> pipeline_results \<Rightarrow> pipeline_results" where
  "set_stage k v r =
     r\<lparr>pr_stages := Some (AList.update k v (case pr_stages r of None \<Rightarrow> [] | Some d \<Rightarrow> d))\<rparr>"

text \<open>The entries of \<^verbatim>\<open>"stages"\<close>, none when the key is missing.\<close>

definition stage_list :: "pipeline_results \<Rightarrow> (string \<times> stage_result) list" where
  "stage_list r = (case pr_stages r of None \<Rightarrow> [] | Some d \<Rightarrow> d)"

text \<open>Python's \<^verbatim>\<open>not x\<close> for \<open>x\<close> of type \<^verbatim>\<open>Optional[str]\<close>: true for
  \<^verbatim>\<open>None\<close> and for the empty string.\<close>

definition falsy :: "string option \<Rightarrow> bool" where
  "falsy x = (case x of None \<Rightarrow> True | Some s \<Rightarrow> s = [])"

subsection \<open>Stage executor: \<^verbatim>\<open>run_agent\<close>\<close>

definition run_agent ::
  "'e runtime \<Rightarrow> string \<Rightarrow> string list \<Rightarrow> string \<Rightarrow> 'e world \<Rightarrow> stage_result \<times> 'e world" where
  "run_agent rt agent_script args stage_name w =
     (let cmd = [sys_executable rt, agent_script] @ args;
          (start_time, e1) = time_time rt (ext w);
          (outcome, e2) = subprocess_run rt cmd 600 e1;
          w2 = \<lparr>ext = e2, trace = trace w @ [Launched cmd 600 outcome]\<rparr>
      in case outcome of
           Completed returncode out err \<Rightarrow>
             (let (end_time, e3) = time_time rt e2;
                  w3 = w2\<lparr>ext := e3\<rparr>
              in if returncode \<noteq> 0 then
                   (\<lparr>sr_success = False,
                     sr_error = Some (''Agent failed with return code '' @ str_int returncode),
                     sr_stdout = Some out, sr_stderr = Some err,
                     sr_duration = Some (end_time - start_time), sr_stage = None\<rparr>, w3)
                 else
                   (\<lparr>sr_success = True, sr_error = None,
                     sr_stdout = Some out, sr_stderr = Some err,
                     sr_duration = Some (end_time - start_time),
                     sr_stage = Some stage_name\<rparr>, w3))
         | TimeoutExpired \<Rightarrow>
             (\<lparr>sr_success = False, sr_error = Some ''Agent timed out after 10 minutes'',
               sr_stdout = None, sr_stderr = None, sr_duration = None,
               sr_stage = Some stage_name\<rparr>, w2)
         | Raised e \<Rightarrow>
             (\<lparr>sr_success = False, sr_error = Some (''Failed to run agent: '' @ e),
               sr_stdout = None, sr_stderr = None, sr_duration = None,
               sr_stage = Some stage_name\<rparr>, w2))"

subsection \<open>Artifact locator: \<^verbatim>\<open>find_latest_output_file\<close>\<close>

text \<open>\<^verbatim>\<open>list.sort\<close> computes the key of every element before it compares any two, so
  one \<^verbatim>\<open>getmtime\<close> that raises sends the method to its \<^verbatim>\<open>except\<close> branch,
  which returns \<^verbatim>\<open>None\<close>.\<close>

definition find_latest_output_file ::
  "'e runtime \<Rightarrow> string \<Rightarrow> 'e world \<Rightarrow> string option \<times> 'e world" where
  "find_latest_output_file rt pattern w =
     (let r = (case listdir rt (ext w) of
                 None \<Rightarrow> None
               | Some names \<Rightarrow>
                   (let files = filter (\<lambda>f. startswith f pattern \<and> endswith f ''.json'') names
                    in if files = [] then None
                       else if list_ex (\<lambda>x. getmtime rt x (ext w) = None) files then None
                       else Some (hd (sort_reverse (\<lambda>x. the (getmtime rt x (ext w))) files))))
      in (r, w\<lparr>trace := trace w @ [Located pattern r]\<rparr>))"

subsection \<open>Input validator: \<^verbatim>\<open>validate_inputs\<close>\<close>

definition required_agents :: "string list" where
  "required_agents =
     [''agent_1_comic_processor.py'', ''agent_2_script_editor.py'',
      ''agent_3_final_integrator.py'']"

definition validate_inputs ::
  "'e runtime \<Rightarrow> coordinator \<Rightarrow> string \<Rightarrow> 'e world \<Rightarrow> validation \<times> 'e world" where
  "validate_inputs rt c cbr_path w =
     (let issues0 = [];
          issues1 =
            (if \<not> path_exists rt cbr_path (ext w) then
               issues0 @ [''CBR file not found: '' @ cbr_path]
             else if \<not> endswith_any (lower cbr_path) [''.cbr'', ''.cbz'', ''.zip''] then
               issues0 @ [''Invalid file type. Expected .cbr, .cbz, or .zip: '' @ cbr_path]
             else issues0);
          issues2 =
            (if \<not> path_exists rt (competitor_data_path c) (ext w) then
               issues1 @ [''Competitor data file not found: '' @ competitor_data_path c]
             else if \<not> endswith (lower (competitor_data_path c)) ''.csv'' then
               issues1 @ [''Invalid competitor data format. Expected .csv: ''
                           @ competitor_data_path c]
             else issues1);
          issues3 =
            foldl (\<lambda>acc agent.
                     if \<not> path_exists rt agent (ext w)
                     then acc @ [''Agent script not found: '' @ agent] else acc)
                  issues2 required_agents;
          issues4 =
            (if \<not> startswith (openai_api_key c) ''sk-'' then
               issues3 @ [''Invalid OpenAI API key format'']
             else issues3)
      in (\<lparr>valid = (length issues4 = 0), issues = issues4\<rparr>, w))"

subsection \<open>Pipeline orchestrator: \<^verbatim>\<open>run_complete_pipeline\<close>\<close>

text \<open>\<^verbatim>\<open>shutil.copy(src, dst)\<close>, recorded in the trace.\<close>

definition copy_file :: "'e runtime \<Rightarrow> string \<Rightarrow> string \<Rightarrow> 'e world \<Rightarrow> bool \<times> 'e world" where
  "copy_file rt src dst w =
     (let (ok, e') = shutil_copy rt src dst (ext w)
      in (ok, \<lparr>ext = e', trace = trace w @ [Copied src dst ok]\<rparr>))"

text \<open>The \<^verbatim>\<open>try\<close> block with the three copies: the first copy that raises ends the
  block, and the \<^verbatim>\<open>except\<close> branch only prints a warning.\<close>

definition copy_results ::
  "'e runtime \<Rightarrow> coordinator \<Rightarrow> string \<Rightarrow> string \<Rightarrow> string \<Rightarrow> 'e world \<Rightarrow> 'e world" where
  "copy_results rt c agent_1_output agent_2_output final_output w =
     (let (ok1, w1) = copy_file rt agent_1_output
                        (path_join (results_dir c) ''agent_1_output.json'') w
      in if \<not> ok1 then w1
         else let (ok2, w2) = copy_file rt agent_2_output
                                (path_join (results_dir c) ''agent_2_output.json'') w1
              in if \<not> ok2 then w2
                 else snd (copy_file rt final_output
                             (path_join (results_dir c) ''final_output.json'') w2))"

definition run_complete_pipeline ::
  "'e runtime \<Rightarrow> coordinator \<Rightarrow> string \<Rightarrow> int \<Rightarrow> 'e world \<Rightarrow> pipeline_results \<times> 'e world" where
  "run_complete_pipeline rt c cbr_path target_duration w0 =
     (let (pipeline_start, e1) = time_time rt (ext w0);
          w1 = w0\<lparr>ext := e1\<rparr>;
          (validation, w2) = validate_inputs rt c cbr_path w1
      in if \<not> valid validation then
           (empty_results\<lparr>pr_success := Some False,
                          pr_error := Some ''Input validation failed'',
                          pr_issues := Some (issues validation)\<rparr>, w2)
         else
     let results0 = empty_results\<lparr>pr_pipeline_id := Some (pipeline_id c),
                                  pr_start_time := Some pipeline_start,
                                  pr_cbr_file := Some cbr_path,
                                  pr_target_duration := Some target_duration,
                                  pr_stages := Some []\<rparr>;
         (stage_1_result, w3) =
            run_agent rt ''agent_1_comic_processor.py''
              [cbr_path, openai_api_key c, str_int target_duration]
              ''AGENT 1: Comic Processor & Script Creator'' w2;
         results1 = set_stage ''agent_1'' stage_1_result results0
     in if \<not> sr_success stage_1_result then
          (results1\<lparr>pr_success := Some False, pr_failed_at := Some ''Agent 1''\<rparr>, w3)
        else
     let (agent_1_output, w4) = find_latest_output_file rt ''agent_1_output_'' w3
     in if falsy agent_1_output then
          (results1\<lparr>pr_success := Some False,
                    pr_error := Some ''Could not find Agent 1 output file''\<rparr>, w4)
        else
     let (stage_2_result, w5) =
            run_agent rt ''agent_2_script_editor.py''
              [the agent_1_output, competitor_data_path c, openai_api_key c]
              ''AGENT 2: Script Editor & Competitive Analyst'' w4;
         results2 = set_stage ''agent_2'' stage_2_result results1
     in if \<not> sr_success stage_2_result then
          (results2\<lparr>pr_success := Some False, pr_failed_at := Some ''Agent 2''\<rparr>, w5)
        else
     let (agent_2_output, w6) = find_latest_output_file rt ''agent_2_output_'' w5
     in if falsy agent_2_output then
          (results2\<lparr>pr_success := Some False,
                    pr_error := Some ''Could not find Agent 2 output file''\<rparr>, w6)
        else
     let (stage_3_result, w7) =
            run_agent rt ''agent_3_final_integrator.py''
              [the agent_2_output, openai_api_key c, str_int target_duration]
              ''AGENT 3: Final Integration Specialist'' w6;
         results3 = set_stage ''agent_3'' stage_3_result results2
     in if \<not> sr_success stage_3_result then
          (results3\<lparr>pr_success := Some False, pr_failed_at := Some ''Agent 3''\<rparr>, w7)
        else
     let (final_output, w8) = find_latest_output_file rt ''final_output_'' w7
     in if falsy final_output then
          (results3\<lparr>pr_success := Some False,
                    pr_error := Some ''Could not find final output file''\<rparr>, w8)
        else
     let w9 = copy_results rt c (the agent_1_output) (the agent_2_output) (the final_output) w8;
         (pipeline_end, e10) = time_time rt (ext w9);
         w10 = w9\<lparr>ext := e10\<rparr>;
         total_duration = pipeline_end - pipeline_start
     in (results3\<lparr>pr_success := Some True,
                  pr_end_time := Some pipeline_end,
                  pr_total_duration := Some total_duration,
                  pr_final_output_file := final_output,
                  pr_results_directory := Some (results_dir c)\<rparr>, w10))"

subsection \<open>Report generator: \<^verbatim>\<open>generate_pipeline_report\<close>\<close>

definition newline :: string where
  "newline = [CHR 0x0A]"

text \<open>\<^verbatim>\<open>d.get(k, 'Unknown')\<close> inside an f-string, for a string value.\<close>

definition get_or :: "string \<Rightarrow> string option \<Rightarrow> string" where
  "get_or dflt x = (case x of None \<Rightarrow> dflt | Some s \<Rightarrow> s)"

text \<open>The body of the loop over \<^verbatim>\<open>stages.items()\<close>: the text one stage adds.\<close>

definition stage_lines :: "'e runtime \<Rightarrow> string \<times> stage_result \<Rightarrow> string" where
  "stage_lines rt entry =
     (let stage_name = fst entry;
          stage_data = snd entry;
          status = (if sr_success stage_data then ''SUCCESS'' else ''FAILED'');
          duration = (case sr_duration stage_data of None \<Rightarrow> 0 | Some d \<Rightarrow> d);
          line = ''  '' @ stage_name @ '': '' @ status @ '' ('' @ format_2f rt duration
                   @ ''s)'' @ newline
      in if \<not> sr_success stage_data \<and> sr_error stage_data \<noteq> None
         then line @ ''    Error: '' @ the (sr_error stage_data) @ newline
         else line)"

definition generate_pipeline_report ::
  "'e runtime \<Rightarrow> pipeline_results \<Rightarrow> 'e world \<Rightarrow> string \<times> 'e world" where
  "generate_pipeline_report rt pipeline_results w =
     (let ok = (pr_success pipeline_results = Some True);
          report0 =
            newline @ replicate 80 CHR ''='' @ newline
            @ ''COMIC-TO-YOUTUBE SCRIPT PIPELINE REPORT'' @ newline
            @ replicate 80 CHR ''='' @ newline
            @ newline
            @ ''Pipeline ID: '' @ get_or ''Unknown'' (pr_pipeline_id pipeline_results) @ newline
            @ ''Source CBR: '' @ get_or ''Unknown'' (pr_cbr_file pipeline_results) @ newline
            @ ''Target Duration: ''
            @ get_or ''Unknown'' (map_option str_int (pr_target_duration pipeline_results))
            @ '' seconds'' @ newline
            @ newline
            @ ''EXECUTION SUMMARY:'' @ newline
            @ ''Status: '' @ (if ok then ''SUCCESS'' else ''FAILED'') @ newline
            @ ''Total Duration: ''
            @ format_2f rt (case pr_total_duration pipeline_results of None \<Rightarrow> 0 | Some d \<Rightarrow> d)
            @ '' seconds'' @ newline;
          report1 =
            (if \<not> ok then
               (let r = report0 @ ''Failed At: ''
                          @ get_or ''Unknown'' (pr_failed_at pipeline_results) @ newline
                in case pr_error pipeline_results of
                     None \<Rightarrow> r
                   | Some e \<Rightarrow> r @ ''Error: '' @ e @ newline)
             else report0);
          report2 = report1 @ newline @ ''STAGE BREAKDOWN:'' @ newline;
          report3 = foldl (\<lambda>report entry. report @ stage_lines rt entry) report2
                      (stage_list pipeline_results);
          report4 =
            (if ok then
               report3 @ newline @ ''FINAL OUTPUT: ''
                 @ get_or ''Not found'' (pr_final_output_file pipeline_results) @ newline
                 @ ''RESULTS SAVED TO: ''
                 @ get_or ''Not saved'' (pr_results_directory pipeline_results) @ newline
             else report3)
      in (report4 @ newline @ replicate 80 CHR ''='', w))"

subsection \<open>Reading the trace\<close>

text \<open>A launch counts as a success exactly when \<^verbatim>\<open>run_agent\<close> reports
  \<^verbatim>\<open>"success": True\<close>: the child returned with code 0.\<close>

fun launch_ok :: "proc_outcome \<Rightarrow> bool" where
  "launch_ok (Completed rc out err) = (rc = 0)"
| "launch_ok TimeoutExpired = False"
| "launch_ok (Raised e) = False"

text \<open>The launches of a trace, in order: command, timeout and outcome of each.\<close>

fun launches :: "event list \<Rightarrow> (string list \<times> time \<times> proc_outcome) list" where
  "launches [] = []"
| "launches (Launched cmd t out # evs) = (cmd, t, out) # launches evs"
| "launches (Located p x # evs) = launches evs"
| "launches (Copied src dst ok # evs) = launches evs"

definition launched_scripts :: "event list \<Rightarrow> string list" where
  "launched_scripts evs = map (\<lambda>l. fst l ! 1) (launches evs)"

definition launch_timeouts :: "event list \<Rightarrow> time list" where
  "launch_timeouts evs = map (\<lambda>l. fst (snd l)) (launches evs)"

definition outcomes :: "event list \<Rightarrow> proc_outcome list" where
  "outcomes evs = map (\<lambda>l. snd (snd l)) (launches evs)"

text \<open>The results of the locator calls of a trace, in order.\<close>

fun located :: "event list \<Rightarrow> string option list" where
  "located [] = []"
| "located (Located p x # evs) = x # located evs"
| "located (Launched cmd t out # evs) = located evs"
| "located (Copied src dst ok # evs) = located evs"

text \<open>An event after which the orchestrator gives up: a launch that did not succeed, or
  a locator call that found nothing.\<close>

fun failure_event :: "event \<Rightarrow> bool" where
  "failure_event (Launched cmd t out) = (\<not> launch_ok out)"
| "failure_event (Located p x) = falsy x"
| "failure_event (Copied src dst ok) = False"

fun is_copy :: "event \<Rightarrow> bool" where
  "is_copy (Copied src dst ok) = True"
| "is_copy (Launched cmd t out) = False"
| "is_copy (Located p x) = False"

text \<open>The command lines of the three stages, as \<^verbatim>\<open>run_complete_pipeline\<close> and
  \<^verbatim>\<open>run_agent\<close> build them.\<close>

definition stage_cmd_1 :: "'e runtime \<Rightarrow> coordinator \<Rightarrow> string \<Rightarrow> int \<Rightarrow> string list" where
  "stage_cmd_1 rt c cbr_path target_duration =
     [sys_executable rt, ''agent_1_comic_processor.py'', cbr_path, openai_api_key c,
      str_int target_duration]"

definition stage_cmd_2 :: "'e runtime \<Rightarrow> coordinator \<Rightarrow> string \<Rightarrow> string list" where
  "stage_cmd_2 rt c agent_1_output =
     [sys_executable rt, ''agent_2_script_editor.py'', agent_1_output,
      competitor_data_path c, openai_api_key c]"

definition stage_cmd_3 :: "'e runtime \<Rightarrow> coordinator \<Rightarrow> string \<Rightarrow> int \<Rightarrow> string list" where
  "stage_cmd_3 rt c agent_2_output target_duration =
     [sys_executable rt, ''agent_3_final_integrator.py'', agent_2_output, openai_api_key c,
      str_int target_duration]"

text \<open>The fixed sequence of stages: the keys under \<^verbatim>\<open>"stages"\<close>, the values of
  \<^verbatim>\<open>"failed_at"\<close>, the prefixes of the output files and the messages for a missing
  output file, stage by stage.\<close>

definition stage_keys :: "string list" where
  "stage_keys = [''agent_1'', ''agent_2'', ''agent_3'']"


definition output_prefixes :: "string list" where
  "output_prefixes = [''agent_1_output_'', ''agent_2_output_'', ''final_output_'']"

definition missing_output_errors :: "string list" where
  "missing_output_errors =
     [''Could not find Agent 1 output file'', ''Could not find Agent 2 output file'',
      ''Could not find final output file'']"

subsection \<open>Example worlds\<close>

text \<open>A small outside world for concrete runs: a clock and the working directory (names
  with modification times, in listing order). A child process is given by a table from
  the agent script to its outcome and the files it writes; it takes five seconds, or the
  whole timeout when it times out. Every copy succeeds or every copy fails. The number
  formatter is a stub: no example renders a report.\<close>

type_synonym demo_state = "time \<times> (string \<times> time) list"

definition demo_rt :: "(string \<Rightarrow> proc_outcome \<times> string list) \<Rightarrow> bool \<Rightarrow> demo_state runtime" where
  "demo_rt agent copy_ok =
     \<lparr>sys_executable = ''python3'',
      time_time = (\<lambda>(t, fs). (t, (t, fs))),
      path_exists = (\<lambda>p (t, fs). p \<in> fst ` set fs),
      listdir = (\<lambda>(t, fs). Some (map fst fs)),
      getmtime = (\<lambda>p (t, fs). map_of fs p),
      subprocess_run = (\<lambda>cmd tmo (t, fs).
         (let out = fst (agent (cmd ! 1));
              t' = (case out of TimeoutExpired \<Rightarrow> t + tmo | _ \<Rightarrow> t + 5)
          in (out, (t', fs @ map (\<lambda>n. (n, t')) (snd (agent (cmd ! 1))))))),
      shutil_copy = (\<lambda>src dst (t, fs). (copy_ok, (t, fs))),
      format_2f = (\<lambda>x. ''0.00'')\<rparr>"

definition good_agents :: "string \<Rightarrow> proc_outcome \<times> string list" where
  "good_agents script =
     (if script = ''agent_1_comic_processor.py''
        then (Completed 0 ''script created'' [], [''agent_1_output_105.json''])
      else if script = ''agent_2_script_editor.py''
        then (Completed 0 ''script edited'' [], [''agent_2_output_110.json''])
      else (Completed 0 ''final script'' [], [''final_output_115.json'']))"

text \<open>Variants: one script behaves differently.\<close>

definition with_agent ::
  "string \<Rightarrow> proc_outcome \<times> string list \<Rightarrow> (string \<Rightarrow> proc_outcome \<times> string list)
     \<Rightarrow> string \<Rightarrow> proc_outcome \<times> string list" where
  "with_agent script behaviour agent s = (if s = script then behaviour else agent s)"


definition silent_2 :: "string \<Rightarrow> proc_outcome \<times> string list" where
  "silent_2 = with_agent ''agent_2_script_editor.py'' (Completed 0 ''nothing to do'' [], [])
                good_agents"


definition slow_3 :: "string \<Rightarrow> proc_outcome \<times> string list" where
  "slow_3 = with_agent ''agent_3_final_integrator.py'' (TimeoutExpired, []) good_agents"

definition slow_1 :: "string \<Rightarrow> proc_outcome \<times> string list" where
  "slow_1 = with_agent ''agent_1_comic_processor.py'' (TimeoutExpired, []) good_agents"

definition unlaunchable_1 :: "string \<Rightarrow> proc_outcome \<times> string list" where
  "unlaunchable_1 = with_agent ''agent_1_comic_processor.py''
                      (Raised ''[Errno 8] Exec format error'', []) good_agents"

definition demo_coordinator :: coordinator where
  "demo_coordinator =
     \<lparr>openai_api_key = ''sk-test'', competitor_data_path = ''competitors.csv'',
      pipeline_id = ''pipeline_100'', results_dir = ''results_pipeline_100''\<rparr>"

definition demo_world :: "demo_state world" where
  "demo_world =
     \<lparr>ext = (100, [(''comic.cbz'', 1), (''competitors.csv'', 2),
                   (''agent_1_comic_processor.py'', 3), (''agent_2_script_editor.py'', 3),
                   (''agent_3_final_integrator.py'', 3)]),
      trace = []\<rparr>"

text \<open>A world that is only a directory: the given entries, in the given order.\<close>

definition dir_world :: "(string \<times> time) list \<Rightarrow> demo_state world" where
  "dir_world entries = \<lparr>ext = (0, entries), trace = []\<rparr>"

text \<open>Concrete runs of the orchestrator in the example world: the third stage times
  out; the first stage, or the second, exits with code 0 but writes no file; the second
  stage exits with code 1; every stage succeeds but no copy does.\<close>

definition run_slow_3 :: "pipeline_results \<times> demo_state world" where
  "run_slow_3 =
     run_complete_pipeline (demo_rt slow_3 True) demo_coordinator ''comic.cbz'' 75 demo_world"


definition run_silent_2 :: "pipeline_results \<times> demo_state world" where
  "run_silent_2 =
     run_complete_pipeline (demo_rt silent_2 True) demo_coordinator ''comic.cbz'' 75 demo_world"


definition run_copy_fails :: "pipeline_results \<times> demo_state world" where
  "run_copy_fails =
     run_complete_pipeline (demo_rt good_agents False) demo_coordinator ''comic.cbz'' 75
       demo_world"

text \<open>A directory in which two matching entries share the newest modification time.\<close>

definition tied_entries :: "(string \<times> time) list" where
  "tied_entries =
     [(''notes.txt'', 9), (''out_a.json'', 3), (''out_c.json'', 7), (''out_b.json'', 7),
      (''out_old.txt'', 8)]"

text \<open>A \<^verbatim>\<open>subprocess.run\<close> that behaves as the given one at the timeout 600 and
  raises at every other timeout, and the run of the orchestrator with it.\<close>

definition only_600 :: "'e runtime \<Rightarrow> string list \<Rightarrow> time \<Rightarrow> 'e \<Rightarrow> proc_outcome \<times> 'e" where
  "only_600 rt cmd tmo e =
     (if tmo = 600 then subprocess_run rt cmd tmo e else (Raised ''unexpected timeout'', e))"

definition run_only_600 :: "pipeline_results \<times> demo_state world" where
  "run_only_600 =
     run_complete_pipeline
       ((demo_rt good_agents True)\<lparr>subprocess_run := only_600 (demo_rt good_agents True)\<rparr>)
       demo_coordinator ''comic.cbz'' 75 demo_world"

section \<open>Properties\<close>

subsection \<open>Stage executor\<close>

lemma run_agent_spec:
  assumes "run_agent rt agent_script args stage_name w = (sr, w')"
  shows "\<exists>out. trace w' = trace w @ [Launched (sys_executable rt # agent_script # args) 600 out]
           \<and> sr_success sr = launch_ok out"
  using assms
  by (auto simp add: run_agent_def Let_def split: prod.splits proc_outcome.splits if_splits)

text \<open>
  Claim C4. When \<^verbatim>\<open>subprocess.run\<close> reports that the child did not exit within the
  timeout (it raises \<^verbatim>\<open>TimeoutExpired\<close>), \<^verbatim>\<open>run_agent\<close> returns a failure
  whose reason is the timeout, and it has called \<^verbatim>\<open>subprocess.run\<close> exactly once:
  the stage is not retried.
\<close>

theorem run_agent_timeout:
  assumes "fst (subprocess_run rt ([sys_executable rt, agent_script] @ args) 600
                  (snd (time_time rt (ext w)))) = TimeoutExpired"
  shows "\<not> sr_success (fst (run_agent rt agent_script args stage_name w))
       \<and> sr_error (fst (run_agent rt agent_script args stage_name w))
           = Some ''Agent timed out after 10 minutes''
       \<and> trace (snd (run_agent rt agent_script args stage_name w))
           = trace w @ [Launched ([sys_executable rt, agent_script] @ args) 600 TimeoutExpired]"
  using assms
  by (simp add: run_agent_def Let_def case_prod_beta split: proc_outcome.splits)

theorem run_agent_timeout_witness:
  "\<not> sr_success (fst (run_agent (demo_rt slow_1 True) ''agent_1_comic_processor.py''
                        [''comic.cbz'', ''sk-test'', ''75''] ''AGENT 1'' demo_world))
   \<and> sr_error (fst (run_agent (demo_rt slow_1 True) ''agent_1_comic_processor.py''
                      [''comic.cbz'', ''sk-test'', ''75''] ''AGENT 1'' demo_world))
       = Some ''Agent timed out after 10 minutes''
   \<and> trace (snd (run_agent (demo_rt slow_1 True) ''agent_1_comic_processor.py''
                   [''comic.cbz'', ''sk-test'', ''75''] ''AGENT 1'' demo_world))
       = [Launched [''python3'', ''agent_1_comic_processor.py'', ''comic.cbz'', ''sk-test'',
                    ''75''] 600 TimeoutExpired]"
proof -
  have h: "fst (subprocess_run (demo_rt slow_1 True)
                  ([sys_executable (demo_rt slow_1 True), ''agent_1_comic_processor.py'']
                     @ [''comic.cbz'', ''sk-test'', ''75''])
                  600 (snd (time_time (demo_rt slow_1 True) (ext demo_world))))
           = TimeoutExpired"
    by (simp add: demo_rt_def slow_1_def with_agent_def demo_world_def)
  show ?thesis
    using run_agent_timeout [OF h, of "''AGENT 1''"]
    by (simp add: demo_rt_def demo_world_def)
qed

text \<open>
  Claim C5, as the code has it. The result of \<^verbatim>\<open>run_agent\<close> carries the captured
  standard output and standard error, verbatim, and the elapsed time between the two clock
  readings, exactly when \<^verbatim>\<open>subprocess.run\<close> returns (with return code zero
  or not). Whenever \<^verbatim>\<open>subprocess.run\<close> raises (the timeout, a failed launch,
  or any other exception, such as the one for output that cannot be decoded, even though
  the child has exited) the result has none of the three keys.
\<close>

theorem run_agent_captures:
  "sr_stdout (fst (run_agent rt agent_script args stage_name w)) =
     (case fst (subprocess_run rt ([sys_executable rt, agent_script] @ args) 600
                  (snd (time_time rt (ext w)))) of
        Completed rc out err \<Rightarrow> Some out | TimeoutExpired \<Rightarrow> None | Raised e \<Rightarrow> None)
   \<and> sr_stderr (fst (run_agent rt agent_script args stage_name w)) =
     (case fst (subprocess_run rt ([sys_executable rt, agent_script] @ args) 600
                  (snd (time_time rt (ext w)))) of
        Completed rc out err \<Rightarrow> Some err | TimeoutExpired \<Rightarrow> None | Raised e \<Rightarrow> None)
   \<and> sr_duration (fst (run_agent rt agent_script args stage_name w)) =
     (case fst (subprocess_run rt ([sys_executable rt, agent_script] @ args) 600
                  (snd (time_time rt (ext w)))) of
        Completed rc out err \<Rightarrow>
          Some (fst (time_time rt (snd (subprocess_run rt
                       ([sys_executable rt, agent_script] @ args) 600
                       (snd (time_time rt (ext w))))))
                - fst (time_time rt (ext w)))
      | TimeoutExpired \<Rightarrow> None | Raised e \<Rightarrow> None)"
  by (simp add: run_agent_def Let_def case_prod_beta split: proc_outcome.splits)

text \<open>The claim as stated fails: a stage that cannot be launched yields a result without
  captured output and without a duration.\<close>

theorem run_agent_launch_failure_drops_output:
  "sr_stdout (fst (run_agent (demo_rt unlaunchable_1 True) ''agent_1_comic_processor.py''
                     [''comic.cbz'', ''sk-test'', ''75''] ''AGENT 1'' demo_world)) = None
   \<and> sr_stderr (fst (run_agent (demo_rt unlaunchable_1 True) ''agent_1_comic_processor.py''
                       [''comic.cbz'', ''sk-test'', ''75''] ''AGENT 1'' demo_world)) = None
   \<and> sr_duration (fst (run_agent (demo_rt unlaunchable_1 True) ''agent_1_comic_processor.py''
                         [''comic.cbz'', ''sk-test'', ''75''] ''AGENT 1'' demo_world)) = None"
  by (simp add: run_agent_def demo_rt_def unlaunchable_1_def with_agent_def demo_world_def)

subsection \<open>Pipeline orchestrator: the eight ways a run can end\<close>

lemma find_latest_spec:
  assumes "find_latest_output_file rt pattern w = (x, w')"
  shows "trace w' = trace w @ [Located pattern x]"
  using assms by (auto simp add: find_latest_output_file_def Let_def)

lemma validate_inputs_world: "snd (validate_inputs rt c cbr_path w) = w"
  by (simp add: validate_inputs_def Let_def)

lemma copy_results_trace:
  "\<exists>cs. trace (copy_results rt c a1 a2 a3 w) = trace w @ cs \<and> list_all is_copy cs"
  by (auto simp add: copy_results_def copy_file_def Let_def split: prod.splits)

lemma falsy_Some: "\<not> falsy x \<Longrightarrow> \<exists>a. x = Some a \<and> a \<noteq> []"
  by (cases x) (auto simp: falsy_def)

lemma pipeline_cases:
  assumes run: "run_complete_pipeline rt c cbr_path td w0 = (r, w')"
  obtains
    (invalid) "trace w' = trace w0" "pr_stages r = None" "pr_success r = Some False"
      "pr_failed_at r = None" "pr_error r = Some ''Input validation failed''"
  | (failed_1) o1 s1 where
      "trace w' = trace w0 @ [Launched (stage_cmd_1 rt c cbr_path td) 600 o1]"
      "\<not> launch_ok o1" "pr_stages r = Some [(''agent_1'', s1)]" "\<not> sr_success s1"
      "pr_success r = Some False" "pr_failed_at r = Some ''Agent 1''" "pr_error r = None"
  | (missing_1) o1 s1 a1 where
      "trace w' = trace w0 @ [Launched (stage_cmd_1 rt c cbr_path td) 600 o1,
                              Located ''agent_1_output_'' a1]"
      "launch_ok o1" "falsy a1" "pr_stages r = Some [(''agent_1'', s1)]" "sr_success s1"
      "pr_success r = Some False" "pr_failed_at r = None"
      "pr_error r = Some ''Could not find Agent 1 output file''"
  | (failed_2) o1 s1 a1 o2 s2 where
      "trace w' = trace w0 @ [Launched (stage_cmd_1 rt c cbr_path td) 600 o1,
                              Located ''agent_1_output_'' (Some a1),
                              Launched (stage_cmd_2 rt c a1) 600 o2]"
      "launch_ok o1" "a1 \<noteq> []" "\<not> launch_ok o2"
      "pr_stages r = Some [(''agent_1'', s1), (''agent_2'', s2)]" "sr_success s1"
      "\<not> sr_success s2"
      "pr_success r = Some False" "pr_failed_at r = Some ''Agent 2''" "pr_error r = None"
  | (missing_2) o1 s1 a1 o2 s2 a2 where
      "trace w' = trace w0 @ [Launched (stage_cmd_1 rt c cbr_path td) 600 o1,
                              Located ''agent_1_output_'' (Some a1),
                              Launched (stage_cmd_2 rt c a1) 600 o2,
                              Located ''agent_2_output_'' a2]"
      "launch_ok o1" "a1 \<noteq> []" "launch_ok o2" "falsy a2"
      "pr_stages r = Some [(''agent_1'', s1), (''agent_2'', s2)]" "sr_success s1"
      "sr_success s2"
      "pr_success r = Some False" "pr_failed_at r = None"
      "pr_error r = Some ''Could not find Agent 2 output file''"
  | (failed_3) o1 s1 a1 o2 s2 a2 o3 s3 where
      "trace w' = trace w0 @ [Launched (stage_cmd_1 rt c cbr_path td) 600 o1,
                              Located ''agent_1_output_'' (Some a1),
                              Launched (stage_cmd_2 rt c a1) 600 o2,
                              Located ''agent_2_output_'' (Some a2),
                              Launched (stage_cmd_3 rt c a2 td) 600 o3]"
      "launch_ok o1" "a1 \<noteq> []" "launch_ok o2" "a2 \<noteq> []" "\<not> launch_ok o3"
      "pr_stages r = Some [(''agent_1'', s1), (''agent_2'', s2), (''agent_3'', s3)]"
      "sr_success s1" "sr_success s2" "\<not> sr_success s3"
      "pr_success r = Some False" "pr_failed_at r = Some ''Agent 3''" "pr_error r = None"
  | (missing_3) o1 s1 a1 o2 s2 a2 o3 s3 a3 where
      "trace w' = trace w0 @ [Launched (stage_cmd_1 rt c cbr_path td) 600 o1,
                              Located ''agent_1_output_'' (Some a1),
                              Launched (stage_cmd_2 rt c a1) 600 o2,
                              Located ''agent_2_output_'' (Some a2),
                              Launched (stage_cmd_3 rt c a2 td) 600 o3,
                              Located ''final_output_'' a3]"
      "launch_ok o1" "a1 \<noteq> []" "launch_ok o2" "a2 \<noteq> []" "launch_ok o3" "falsy a3"
      "pr_stages r = Some [(''agent_1'', s1), (''agent_2'', s2), (''agent_3'', s3)]"
      "sr_success s1" "sr_success s2" "sr_success s3"
      "pr_success r = Some False" "pr_failed_at r = None"
      "pr_error r = Some ''Could not find final output file''"
  | (archived) o1 s1 a1 o2 s2 a2 o3 s3 a3 cs where
      "trace w' = trace w0 @ [Launched (stage_cmd_1 rt c cbr_path td) 600 o1,
                              Located ''agent_1_output_'' (Some a1),
                              Launched (stage_cmd_2 rt c a1) 600 o2,
                              Located ''agent_2_output_'' (Some a2),
                              Launched (stage_cmd_3 rt c a2 td) 600 o3,
                              Located ''final_output_'' (Some a3)] @ cs"
      "list_all is_copy cs"
      "launch_ok o1" "a1 \<noteq> []" "launch_ok o2" "a2 \<noteq> []" "launch_ok o3" "a3 \<noteq> []"
      "pr_stages r = Some [(''agent_1'', s1), (''agent_2'', s2), (''agent_3'', s3)]"
      "sr_success s1" "sr_success s2" "sr_success s3"
      "pr_success r = Some True" "pr_failed_at r = None" "pr_error r = None"
      "pr_final_output_file r = Some a3" "pr_results_directory r = Some (results_dir c)"
proof -
  obtain t0 e1 where tt: "time_time rt (ext w0) = (t0, e1)" by (cases "time_time rt (ext w0)")
  define w1 where "w1 = w0\<lparr>ext := e1\<rparr>"
  obtain v where vi: "validate_inputs rt c cbr_path w1 = (v, w1)"
    using validate_inputs_world [of rt c cbr_path w1] by (cases "validate_inputs rt c cbr_path w1") simp
  show thesis
  proof (cases "valid v")
    case False
    with run tt vi w1_def have "r = empty_results\<lparr>pr_success := Some False,
                          pr_error := Some ''Input validation failed'',
                          pr_issues := Some (issues v)\<rparr>" "w' = w1"
      by (simp_all add: run_complete_pipeline_def)
    then show thesis using invalid by (simp add: empty_results_def w1_def)
  next
    case True
    define results0 where "results0 = empty_results\<lparr>pr_pipeline_id := Some (pipeline_id c),
                                  pr_start_time := Some t0,
                                  pr_cbr_file := Some cbr_path,
                                  pr_target_duration := Some td,
                                  pr_stages := Some []\<rparr>"
    obtain s1 w3 where ra1: "run_agent rt ''agent_1_comic_processor.py''
              [cbr_path, openai_api_key c, str_int td]
              ''AGENT 1: Comic Processor & Script Creator'' w1 = (s1, w3)"
      by fastforce
    from run_agent_spec [OF ra1] obtain o1 where
      tr3: "trace w3 = trace w0 @ [Launched (stage_cmd_1 rt c cbr_path td) 600 o1]"
      and ok1: "sr_success s1 = launch_ok o1"
      by (auto simp: stage_cmd_1_def w1_def)
    define results1 where "results1 = set_stage ''agent_1'' s1 results0"
    have f1: "pr_stages results1 = Some [(''agent_1'', s1)]" "pr_failed_at results1 = None"
      "pr_error results1 = None"
      by (simp_all add: results1_def results0_def set_stage_def empty_results_def)
    note start = tt vi True ra1
    show thesis
    proof (cases "sr_success s1")
      case False
      with run start have "r = results1\<lparr>pr_success := Some False, pr_failed_at := Some ''Agent 1''\<rparr>"
        "w' = w3"
        by (simp_all add: run_complete_pipeline_def w1_def [symmetric] results0_def [symmetric]
              results1_def [symmetric])
      then show thesis using failed_1 [of o1 s1] tr3 ok1 False f1 by simp
    next
      case s1_ok: True
      obtain x1 w4 where fl1: "find_latest_output_file rt ''agent_1_output_'' w3 = (x1, w4)"
        by fastforce
      from find_latest_spec [OF fl1] tr3 have
        tr4: "trace w4 = trace w0 @ [Launched (stage_cmd_1 rt c cbr_path td) 600 o1,
                                     Located ''agent_1_output_'' x1]"
        by simp
      note start = start s1_ok fl1
      show thesis
      proof (cases "falsy x1")
        case True
        with run start have "r = results1\<lparr>pr_success := Some False,
              pr_error := Some ''Could not find Agent 1 output file''\<rparr>" "w' = w4"
          by (simp_all add: run_complete_pipeline_def w1_def [symmetric] results0_def [symmetric]
                results1_def [symmetric])
        then show thesis using missing_1 [of o1 x1 s1] tr4 ok1 s1_ok True f1 by simp
      next
        case x1_ok: False
        then obtain a1 where a1: "x1 = Some a1" "a1 \<noteq> []" using falsy_Some by blast
        obtain s2 w5 where ra2: "run_agent rt ''agent_2_script_editor.py''
              [a1, competitor_data_path c, openai_api_key c]
              ''AGENT 2: Script Editor & Competitive Analyst'' w4 = (s2, w5)"
          by fastforce
        from run_agent_spec [OF ra2] tr4 a1 obtain o2 where
          tr5: "trace w5 = trace w0 @ [Launched (stage_cmd_1 rt c cbr_path td) 600 o1,
                                     Located ''agent_1_output_'' (Some a1),
                                     Launched (stage_cmd_2 rt c a1) 600 o2]"
          and ok2: "sr_success s2 = launch_ok o2"
          by (auto simp: stage_cmd_2_def)
        define results2 where "results2 = set_stage ''agent_2'' s2 results1"
        have f2: "pr_stages results2 = Some [(''agent_1'', s1), (''agent_2'', s2)]"
          "pr_failed_at results2 = None" "pr_error results2 = None"
          using f1 by (simp_all add: results2_def set_stage_def)
        note start = start x1_ok a1 ra2
        show thesis
        proof (cases "sr_success s2")
          case False
          with run start have
            "r = results2\<lparr>pr_success := Some False, pr_failed_at := Some ''Agent 2''\<rparr>"
            "w' = w5"
            by (simp_all add: run_complete_pipeline_def w1_def [symmetric]
                  results0_def [symmetric] results1_def [symmetric] results2_def [symmetric])
          then show thesis
            using failed_2 [of o1 a1 o2 s1 s2] tr5 ok1 ok2 s1_ok False f2 a1 by simp
        next
          case s2_ok: True
          obtain x2 w6 where fl2: "find_latest_output_file rt ''agent_2_output_'' w5 = (x2, w6)"
            by fastforce
          from find_latest_spec [OF fl2] tr5 have
            tr6: "trace w6 = trace w0 @ [Launched (stage_cmd_1 rt c cbr_path td) 600 o1,
                                     Located ''agent_1_output_'' (Some a1),
                                     Launched (stage_cmd_2 rt c a1) 600 o2,
                                     Located ''agent_2_output_'' x2]"
            by simp
          note start = start s2_ok fl2
          show thesis
          proof (cases "falsy x2")
            case True
            with run start have "r = results2\<lparr>pr_success := Some False,
                  pr_error := Some ''Could not find Agent 2 output file''\<rparr>" "w' = w6"
              by (simp_all add: run_complete_pipeline_def w1_def [symmetric]
                    results0_def [symmetric] results1_def [symmetric] results2_def [symmetric])
            then show thesis
              using missing_2 [of o1 a1 o2 x2 s1 s2] tr6 ok1 ok2 s1_ok s2_ok True f2 a1 by simp
          next
            case x2_ok: False
            then obtain a2 where a2: "x2 = Some a2" "a2 \<noteq> []" using falsy_Some by blast
            obtain s3 w7 where ra3: "run_agent rt ''agent_3_final_integrator.py''
                  [a2, openai_api_key c, str_int td]
                  ''AGENT 3: Final Integration Specialist'' w6 = (s3, w7)"
              by fastforce
            from run_agent_spec [OF ra3] tr6 a2 obtain o3 where
              tr7: "trace w7 = trace w0 @ [Launched (stage_cmd_1 rt c cbr_path td) 600 o1,
                                     Located ''agent_1_output_'' (Some a1),
                                     Launched (stage_cmd_2 rt c a1) 600 o2,
                                     Located ''agent_2_output_'' (Some a2),
                                     Launched (stage_cmd_3 rt c a2 td) 600 o3]"
              and ok3: "sr_success s3 = launch_ok o3"
              by (auto simp: stage_cmd_3_def)
            define results3 where "results3 = set_stage ''agent_3'' s3 results2"
            have f3: "pr_stages results3
                        = Some [(''agent_1'', s1), (''agent_2'', s2), (''agent_3'', s3)]"
              "pr_failed_at results3 = None" "pr_error results3 = None"
              using f2 by (simp_all add: results3_def set_stage_def)
            note start = start x2_ok a2 ra3
            show thesis
            proof (cases "sr_success s3")
              case False
              with run start have
                "r = results3\<lparr>pr_success := Some False, pr_failed_at := Some ''Agent 3''\<rparr>"
                "w' = w7"
                by (simp_all add: run_complete_pipeline_def w1_def [symmetric]
                      results0_def [symmetric] results1_def [symmetric]
                      results2_def [symmetric] results3_def [symmetric])
              then show thesis
                using failed_3 [of o1 a1 o2 a2 o3 s1 s2 s3] tr7 ok1 ok2 ok3 s1_ok s2_ok False f3
                  a1 a2
                by simp
            next
              case s3_ok: True
              obtain x3 w8 where
                fl3: "find_latest_output_file rt ''final_output_'' w7 = (x3, w8)"
                by fastforce
              from find_latest_spec [OF fl3] tr7 have
                tr8: "trace w8 = trace w0 @ [Launched (stage_cmd_1 rt c cbr_path td) 600 o1,
                                     Located ''agent_1_output_'' (Some a1),
                                     Launched (stage_cmd_2 rt c a1) 600 o2,
                                     Located ''agent_2_output_'' (Some a2),
                                     Launched (stage_cmd_3 rt c a2 td) 600 o3,
                                     Located ''final_output_'' x3]"
                by simp
              note start = start s3_ok fl3
              show thesis
              proof (cases "falsy x3")
                case True
                with run start have "r = results3\<lparr>pr_success := Some False,
                      pr_error := Some ''Could not find final output file''\<rparr>" "w' = w8"
                  by (simp_all add: run_complete_pipeline_def w1_def [symmetric]
                        results0_def [symmetric] results1_def [symmetric]
                        results2_def [symmetric] results3_def [symmetric])
                then show thesis
                  using missing_3 [of o1 a1 o2 a2 o3 x3 s1 s2 s3] tr8 ok1 ok2 ok3 s1_ok s2_ok
                    s3_ok True f3 a1 a2
                  by simp
              next
                case x3_ok: False
                then obtain a3 where a3: "x3 = Some a3" "a3 \<noteq> []" using falsy_Some by blast
                define w9 where "w9 = copy_results rt c a1 a2 a3 w8"
                obtain cs where cs: "trace w9 = trace w8 @ cs" "list_all is_copy cs"
                  using copy_results_trace [of rt c a1 a2 a3 w8] by (auto simp: w9_def)
                obtain t10 e10 where tt10: "time_time rt (ext w9) = (t10, e10)"
                  by fastforce
                from run start x3_ok a3 tt10 have
                  "r = results3\<lparr>pr_success := Some True,
                        pr_end_time := Some t10,
                        pr_total_duration := Some (t10 - t0),
                        pr_final_output_file := Some a3,
                        pr_results_directory := Some (results_dir c)\<rparr>"
                  "w' = w9\<lparr>ext := e10\<rparr>"
                  by (simp_all add: run_complete_pipeline_def w1_def [symmetric]
                        results0_def [symmetric] results1_def [symmetric]
                        results2_def [symmetric] results3_def [symmetric] w9_def [symmetric])
                then show thesis
                  using archived [of o1 a1 o2 a2 o3 a3 cs s1 s2 s3] tr8 cs ok1 ok2 ok3 s1_ok
                    s2_ok s3_ok f3 a1 a2 a3
                  by simp
              qed
            qed
          qed
        qed
      qed
    qed
  qed
qed

subsection \<open>Artifact locator\<close>

lemma sorted_last_Max:
  fixes ks :: "'k::linorder list"
  assumes "sorted ks" "ks \<noteq> []"
  shows "last ks = Max (set ks)"
  using assms
proof (induction ks)
  case Nil
  then show ?case by simp
next
  case (Cons k ks)
  show ?case
  proof (cases "ks = []")
    case True
    then show ?thesis by simp
  next
    case False
    with Cons have ih: "last ks = Max (set ks)" by simp
    have "k \<le> Max (set ks)"
      using Cons.prems(1) False by (metis ih last_in_set sorted_simps(2))
    then have "Max (insert k (set ks)) = Max (set ks)"
      using False by (simp add: max_absorb2)
    with ih False show ?thesis by simp
  qed
qed

lemma last_filter_keeps:
  assumes "xs \<noteq> []" "P (last xs)"
  shows "last (filter P xs) = last xs"
  using assms
proof (induction xs)
  case Nil
  then show ?case by simp
next
  case (Cons x xs)
  show ?case
  proof (cases "xs = []")
    case True
    with Cons.prems show ?thesis by simp
  next
    case False
    with Cons have ih: "last (filter P xs) = last xs" by simp
    have "last xs \<in> set xs" "P (last xs)" using False Cons.prems by simp_all
    then have "filter P xs \<noteq> []" by (auto simp: filter_empty_conv)
    with ih False show ?thesis by simp
  qed
qed

lemma last_sort_key:
  assumes "ys \<noteq> []"
  shows "last (sort_key f ys) = last (filter (\<lambda>x. f x = Max (f ` set ys)) ys)"
proof -
  let ?zs = "sort_key f ys"
  let ?m = "Max (f ` set ys)"
  have ne: "?zs \<noteq> []" using assms by (metis length_sort list.size(3) length_0_conv)
  have "sorted (map f ?zs)" by simp
  then have "last (map f ?zs) = Max (set (map f ?zs))"
    using ne by (intro sorted_last_Max) simp_all
  then have key: "f (last ?zs) = ?m" using ne by (simp add: last_map)
  have "last (filter (\<lambda>x. f x = ?m) ?zs) = last ?zs"
    using ne key by (rule last_filter_keeps)
  then show ?thesis by (simp add: sort_key_stable)
qed

lemma hd_sort_reverse:
  assumes "xs \<noteq> []"
  shows "hd (sort_reverse f xs) = hd (filter (\<lambda>x. f x = Max (f ` set xs)) xs)"
proof -
  have ne: "sort_key f (rev xs) \<noteq> []"
    using assms by (metis length_sort length_rev list.size(3) length_0_conv)
  have "hd (sort_reverse f xs) = last (sort_key f (rev xs))"
    using ne by (simp add: sort_reverse_def hd_rev)
  also have "\<dots> = last (filter (\<lambda>x. f x = Max (f ` set (rev xs))) (rev xs))"
    using assms by (intro last_sort_key) simp
  also have "\<dots> = last (rev (filter (\<lambda>x. f x = Max (f ` set xs)) xs))"
    by (simp add: rev_filter)
  also have "\<dots> = hd (filter (\<lambda>x. f x = Max (f ` set xs)) xs)"
    by (simp add: last_rev)
  finally show ?thesis .
qed

lemma insort_key_agree:
  assumes "f x = g x" "\<forall>y \<in> set ys. f y = g y"
  shows "insort_key f x ys = insort_key g x ys"
  using assms by (induction ys) simp_all

lemma sort_key_agree:
  assumes "\<forall>x \<in> set xs. f x = g x"
  shows "sort_key f xs = sort_key g xs"
  using assms
proof (induction xs)
  case Nil
  then show ?case by simp
next
  case (Cons x xs)
  then have "sort_key f xs = sort_key g xs" by simp
  moreover have "insort_key f x (sort_key g xs) = insort_key g x (sort_key g xs)"
    using Cons.prems by (intro insort_key_agree) simp_all
  ultimately show ?case by simp
qed

lemma first_newest:
  fixes f :: "'a \<Rightarrow> 'k::linorder"
  assumes "xs \<noteq> []" and f0_def: "f0 = hd (sort_reverse f xs)"
  shows "f0 \<in> set xs" "\<forall>g \<in> set xs. f g \<le> f f0" "f0 = hd (filter (\<lambda>g. f g = f f0) xs)"
proof -
  let ?m = "Max (f ` set xs)"
  let ?c = "filter (\<lambda>x. f x = ?m) xs"
  have "?m \<in> f ` set xs" using assms(1) by (intro Max_in) simp_all
  then have ne: "?c \<noteq> []" by (auto simp: filter_empty_conv)
  have eq: "f0 = hd ?c" unfolding f0_def using assms(1) by (rule hd_sort_reverse)
  have "hd ?c \<in> set ?c" using ne by (rule hd_in_set)
  then have "f0 \<in> set ?c" using eq by simp
  then have mem: "f0 \<in> set xs" and key: "f f0 = ?m" by auto
  show "f0 \<in> set xs" by (rule mem)
  show "\<forall>g \<in> set xs. f g \<le> f f0" using key by simp
  show "f0 = hd (filter (\<lambda>g. f g = f f0) xs)" using eq key by simp
qed

text \<open>
  Claim C6, as the code has it. When the directory can be listed and the modification time
  of every matching entry can be read, \<^verbatim>\<open>find_latest_output_file\<close> returns
  \<^verbatim>\<open>None\<close> if no entry starts with the pattern and ends with \<^verbatim>\<open>.json\<close>,
  and otherwise a matching entry whose modification time is maximal. Among several entries
  with that maximal time it returns the one the directory lists first: the tie is broken by
  listing order, not by name.
\<close>

theorem find_latest_newest_first_listed:
  assumes ls: "listdir rt (ext w) = Some names"
    and files: "files = filter (\<lambda>f. startswith f pattern \<and> endswith f ''.json'') names"
    and mt: "\<forall>f \<in> set files. getmtime rt f (ext w) = Some (mtime f)"
  shows "(files = [] \<longrightarrow> fst (find_latest_output_file rt pattern w) = None)
       \<and> (files \<noteq> [] \<longrightarrow>
            (\<exists>f. fst (find_latest_output_file rt pattern w) = Some f
               \<and> f \<in> set files
               \<and> (\<forall>g \<in> set files. mtime g \<le> mtime f)
               \<and> f = hd (filter (\<lambda>g. mtime g = mtime f) files)))"
proof (cases "files = []")
  case True
  then show ?thesis using ls files by (simp add: find_latest_output_file_def)
next
  case False
  have sk: "sort_reverse (\<lambda>x. the (getmtime rt x (ext w))) files = sort_reverse mtime files"
    unfolding sort_reverse_def using mt by (intro arg_cong [where f = rev] sort_key_agree) simp
  have nex: "\<not> list_ex (\<lambda>x. getmtime rt x (ext w) = None) files"
    using mt by (simp add: list_ex_iff)
  have res: "fst (find_latest_output_file rt pattern w) = Some (hd (sort_reverse mtime files))"
    using ls files [symmetric] False nex sk by (simp add: find_latest_output_file_def Let_def)
  show ?thesis
    using False res first_newest [OF False refl, of mtime] by simp
qed

theorem find_latest_newest_first_listed_witness:
  "listdir (demo_rt good_agents True) (ext (dir_world tied_entries))
     = Some [''notes.txt'', ''out_a.json'', ''out_c.json'', ''out_b.json'', ''out_old.txt'']
   \<and> [''out_a.json'', ''out_c.json'', ''out_b.json'']
       = filter (\<lambda>f. startswith f ''out_'' \<and> endswith f ''.json'')
           [''notes.txt'', ''out_a.json'', ''out_c.json'', ''out_b.json'', ''out_old.txt'']
   \<and> fst (find_latest_output_file (demo_rt good_agents True) ''out_'' (dir_world tied_entries))
       = Some ''out_c.json''
   \<and> (\<exists>f. fst (find_latest_output_file (demo_rt good_agents True) ''out_''
                 (dir_world tied_entries)) = Some f
          \<and> f \<in> set [''out_a.json'', ''out_c.json'', ''out_b.json'']
          \<and> (\<forall>g \<in> set [''out_a.json'', ''out_c.json'', ''out_b.json''].
                the (map_of tied_entries g) \<le> the (map_of tied_entries f))
          \<and> f = hd (filter (\<lambda>g. the (map_of tied_entries g) = the (map_of tied_entries f))
                      [''out_a.json'', ''out_c.json'', ''out_b.json'']))
   \<and> [] = filter (\<lambda>f. startswith f ''final_output_'' \<and> endswith f ''.json'')
             [''notes.txt'', ''out_a.json'', ''out_c.json'', ''out_b.json'', ''out_old.txt'']
   \<and> fst (find_latest_output_file (demo_rt good_agents True) ''final_output_''
            (dir_world tied_entries)) = None"
proof -
  have ls: "listdir (demo_rt good_agents True) (ext (dir_world tied_entries))
     = Some [''notes.txt'', ''out_a.json'', ''out_c.json'', ''out_b.json'', ''out_old.txt'']"
    by code_simp
  have files: "[''out_a.json'', ''out_c.json'', ''out_b.json'']
       = filter (\<lambda>f. startswith f ''out_'' \<and> endswith f ''.json'')
           [''notes.txt'', ''out_a.json'', ''out_c.json'', ''out_b.json'', ''out_old.txt'']"
    by code_simp
  have mt: "\<forall>f \<in> set [''out_a.json'', ''out_c.json'', ''out_b.json''].
              getmtime (demo_rt good_agents True) f (ext (dir_world tied_entries))
                = Some (the (map_of tied_entries f))"
    by code_simp
  have res: "fst (find_latest_output_file (demo_rt good_agents True) ''out_''
                    (dir_world tied_entries)) = Some ''out_c.json''"
    by code_simp
  have none: "[] = filter (\<lambda>f. startswith f ''final_output_'' \<and> endswith f ''.json'')
             [''notes.txt'', ''out_a.json'', ''out_c.json'', ''out_b.json'', ''out_old.txt'']"
    by code_simp
  have mt': "\<forall>f \<in> set ([] :: string list).
               getmtime (demo_rt good_agents True) f (ext (dir_world tied_entries))
                 = Some (the (map_of tied_entries f))"
    by simp
  from find_latest_newest_first_listed [OF ls files mt]
    find_latest_newest_first_listed [OF ls none mt'] ls files res none
  show ?thesis
    by simp
qed

text \<open>The claim as stated fails: two directories with the same two entries and the same
  modification times, listed in different orders, give different answers, so the tie is
  not decided by the names.\<close>

theorem tie_is_broken_by_listing_order:
  "fst (find_latest_output_file (demo_rt good_agents True) ''out_''
          (dir_world [(''out_b.json'', 7), (''out_a.json'', 7)])) = Some ''out_b.json''
   \<and> fst (find_latest_output_file (demo_rt good_agents True) ''out_''
            (dir_world [(''out_a.json'', 7), (''out_b.json'', 7)])) = Some ''out_a.json''"
  by code_simp

subsection \<open>Input validator\<close>

lemma foldl_collect:
  "foldl (\<lambda>acc a. if P a then acc @ [g a] else acc) init xs
     = init @ concat (map (\<lambda>a. if P a then [g a] else []) xs)"
  by (induction xs arbitrary: init) simp_all

text \<open>
  Claim C7. \<^verbatim>\<open>validate_inputs\<close> has no branch that raises
  (\<^verbatim>\<open>os.path.exists\<close> answers \<^verbatim>\<open>False\<close> where another call would
  raise): for every input it returns a result and leaves the world as it was. The flag
  \<open>valid\<close> is true exactly when the list of issues is empty. The list of issues is the
  concatenation of what the four checks report, each check decided on its own (source
  file, competitor data, the three agent scripts, the credential): no check is skipped
  because an earlier one failed. Within the first two checks the extension of a path is
  looked at only when the path exists, so each of them reports at most one issue.
\<close>

theorem validate_inputs_collects_all:
  "snd (validate_inputs rt c cbr_path w) = w
   \<and> valid (fst (validate_inputs rt c cbr_path w))
       = (issues (fst (validate_inputs rt c cbr_path w)) = [])
   \<and> issues (fst (validate_inputs rt c cbr_path w)) =
       (if \<not> path_exists rt cbr_path (ext w) then [''CBR file not found: '' @ cbr_path]
        else if \<not> endswith_any (lower cbr_path) [''.cbr'', ''.cbz'', ''.zip'']
          then [''Invalid file type. Expected .cbr, .cbz, or .zip: '' @ cbr_path]
        else [])
       @ (if \<not> path_exists rt (competitor_data_path c) (ext w)
            then [''Competitor data file not found: '' @ competitor_data_path c]
          else if \<not> endswith (lower (competitor_data_path c)) ''.csv''
            then [''Invalid competitor data format. Expected .csv: '' @ competitor_data_path c]
          else [])
       @ concat (map (\<lambda>agent. if \<not> path_exists rt agent (ext w)
                               then [''Agent script not found: '' @ agent] else [])
                     required_agents)
       @ (if \<not> startswith (openai_api_key c) ''sk-''
            then [''Invalid OpenAI API key format''] else [])"
  by (simp add: validate_inputs_def Let_def foldl_collect)

subsection \<open>Pipeline orchestrator\<close>

lemma launches_append: "launches (xs @ ys) = launches xs @ launches ys"
  by (induction xs rule: launches.induct) simp_all

lemma located_append: "located (xs @ ys) = located xs @ located ys"
  by (induction xs rule: located.induct) simp_all

lemma copies_silent:
  assumes "list_all is_copy cs"
  shows "launches cs = []" "located cs = []" "\<forall>e \<in> set cs. \<not> failure_event e"
  using assms by (induction cs rule: launches.induct) simp_all

lemma butlast_copies:
  assumes "list_all is_copy cs" "e \<in> set (butlast (xs @ cs))" "\<forall>e \<in> set xs. \<not> failure_event e"
  shows "\<not> failure_event e"
proof -
  from assms(2) have "e \<in> set (xs @ cs)" by (rule in_set_butlastD)
  with assms(3) copies_silent(3) [OF assms(1)] show ?thesis by auto
qed

text \<open>
  Claim C1. For every run of \<^verbatim>\<open>run_complete_pipeline\<close>, with \<open>n\<close> the number
  of entries under \<^verbatim>\<open>"stages"\<close> (none when the key is missing, after a failed
  validation): \<open>n \<le> 3\<close>; the keys are the first \<open>n\<close> of agent_1, agent_2, agent_3, in
  this order; the scripts launched during the run are the first \<open>n\<close> of the three agent
  scripts, in this order, and the success flags recorded are those of these launches; and
  every launch and every locator call of the run but the last one succeeded, so nothing
  is attempted after a stage that failed or whose output file was not found.
\<close>

theorem run_attempts_prefix_of_stages:
  assumes run: "run_complete_pipeline rt c cbr_path td w0 = (r, w')"
  shows "\<exists>evs. trace w' = trace w0 @ evs
     \<and> length (stage_list r) \<le> 3
     \<and> map fst (stage_list r) = take (length (stage_list r)) stage_keys
     \<and> launched_scripts evs = take (length (stage_list r)) required_agents
     \<and> map (\<lambda>e. sr_success (snd e)) (stage_list r) = map launch_ok (outcomes evs)
     \<and> (\<forall>e \<in> set (butlast evs). \<not> failure_event e)"
  using run
proof (cases rule: pipeline_cases)
  case (archived o1 s1 a1 o2 s2 a2 o3 s3 a3 cs)
  let ?six = "[Launched (stage_cmd_1 rt c cbr_path td) 600 o1,
               Located ''agent_1_output_'' (Some a1),
               Launched (stage_cmd_2 rt c a1) 600 o2,
               Located ''agent_2_output_'' (Some a2),
               Launched (stage_cmd_3 rt c a2 td) 600 o3,
               Located ''final_output_'' (Some a3)]"
  have six: "\<forall>e \<in> set ?six. \<not> failure_event e"
    using archived by (simp add: falsy_def)
  have "\<forall>e \<in> set (butlast (?six @ cs)). \<not> failure_event e"
    using butlast_copies [OF archived(2) _ six] by blast
  then show ?thesis
    using archived copies_silent [OF archived(2)]
    by (intro exI [of _ "?six @ cs"])
       (simp add: launched_scripts_def outcomes_def launches_append stage_cmd_1_def
          stage_cmd_2_def stage_cmd_3_def stage_list_def stage_keys_def required_agents_def)
qed (simp_all add: launched_scripts_def outcomes_def stage_cmd_1_def stage_cmd_2_def
       stage_cmd_3_def stage_list_def stage_keys_def required_agents_def falsy_def)

theorem run_attempts_prefix_of_stages_witness:
  "(\<exists>evs. trace (snd run_slow_3) = trace demo_world @ evs
     \<and> length (stage_list (fst run_slow_3)) \<le> 3
     \<and> map fst (stage_list (fst run_slow_3))
         = take (length (stage_list (fst run_slow_3))) stage_keys
     \<and> launched_scripts evs = take (length (stage_list (fst run_slow_3))) required_agents
     \<and> map (\<lambda>e. sr_success (snd e)) (stage_list (fst run_slow_3)) = map launch_ok (outcomes evs)
     \<and> (\<forall>e \<in> set (butlast evs). \<not> failure_event e))
   \<and> map fst (stage_list (fst run_slow_3)) = [''agent_1'', ''agent_2'', ''agent_3'']
   \<and> map (\<lambda>e. sr_success (snd e)) (stage_list (fst run_slow_3)) = [True, True, False]
   \<and> length (trace (snd run_slow_3)) = 5
   \<and> failure_event (last (trace (snd run_slow_3)))"
proof -
  have concrete:
    "map fst (stage_list (fst run_slow_3)) = [''agent_1'', ''agent_2'', ''agent_3'']
     \<and> map (\<lambda>e. sr_success (snd e)) (stage_list (fst run_slow_3)) = [True, True, False]
     \<and> length (trace (snd run_slow_3)) = 5
     \<and> failure_event (last (trace (snd run_slow_3)))"
    by code_simp
  have run: "run_complete_pipeline (demo_rt slow_3 True) demo_coordinator ''comic.cbz'' 75
               demo_world = (fst run_slow_3, snd run_slow_3)"
    by (simp add: run_slow_3_def)
  from run_attempts_prefix_of_stages [OF run] concrete show ?thesis by blast
qed




text \<open>
  Claim C3, as the code has it. If the subprocess of stage \<open>k + 1\<close> exits with code 0 and
  the locator finds no file for that stage's output prefix, then the run is marked as
  failed, \<^verbatim>\<open>"error"\<close> is the message for that stage's missing output file,
  \<^verbatim>\<open>"failed_at"\<close> is not set, and the locator call is the last event of the run:
  \<open>k + 1\<close> stages were launched and recorded, and no later one.
\<close>

theorem missing_output_fails_run:
  assumes run: "run_complete_pipeline rt c cbr_path td w0 = (r, w')"
    and tr: "trace w' = trace w0 @ evs"
    and k: "k < 3"
    and exit0: "Launched cmd t (Completed 0 out err) \<in> set evs" "cmd ! 1 = required_agents ! k"
    and nofile: "Located (output_prefixes ! k) x \<in> set evs" "falsy x"
  shows "pr_success r = Some False
       \<and> pr_error r = Some (missing_output_errors ! k)
       \<and> pr_failed_at r = None
       \<and> length (launches evs) = Suc k
       \<and> length (stage_list r) = Suc k
       \<and> last evs = Located (output_prefixes ! k) x"
proof -
  from k have kk: "k = 0 \<or> k = 1 \<or> k = 2" by arith
  from run show ?thesis
  proof (cases rule: pipeline_cases)
    case (archived o1 s1 a1 o2 s2 a2 o3 s3 a3 cs)
    have "\<forall>e \<in> set cs. \<not> failure_event e" using copies_silent(3) [OF archived(2)] .
    then have "Located (output_prefixes ! k) x \<notin> set cs" using nofile(2) by auto
    then show ?thesis
      using archived tr nofile kk
      by (auto simp add: output_prefixes_def falsy_def)
  qed (use tr nofile kk in
        \<open>auto simp add: output_prefixes_def missing_output_errors_def falsy_def stage_list_def\<close>)
qed

theorem missing_output_fails_run_witness:
  "Launched [''python3'', ''agent_2_script_editor.py'', ''agent_1_output_105.json'',
             ''competitors.csv'', ''sk-test''] 600 (Completed 0 ''nothing to do'' [])
     \<in> set (trace (snd run_silent_2))
   \<and> Located ''agent_2_output_'' None \<in> set (trace (snd run_silent_2))
   \<and> pr_success (fst run_silent_2) = Some False
   \<and> pr_error (fst run_silent_2) = Some ''Could not find Agent 2 output file''
   \<and> pr_failed_at (fst run_silent_2) = None
   \<and> length (launches (trace (snd run_silent_2))) = 2
   \<and> length (stage_list (fst run_silent_2)) = 2
   \<and> last (trace (snd run_silent_2)) = Located ''agent_2_output_'' None"
proof -
  have run: "run_complete_pipeline (demo_rt silent_2 True) demo_coordinator ''comic.cbz'' 75
               demo_world = (fst run_silent_2, snd run_silent_2)"
    by (simp add: run_silent_2_def)
  have tr: "trace (snd run_silent_2) = trace demo_world @ trace (snd run_silent_2)"
    by (simp add: demo_world_def)
  have k: "(1::nat) < 3" by simp
  have exit0: "Launched [''python3'', ''agent_2_script_editor.py'', ''agent_1_output_105.json'',
                 ''competitors.csv'', ''sk-test''] 600 (Completed 0 ''nothing to do'' [])
               \<in> set (trace (snd run_silent_2))"
    by code_simp
  have script: "[''python3'', ''agent_2_script_editor.py'', ''agent_1_output_105.json'',
                 ''competitors.csv'', ''sk-test''] ! 1 = required_agents ! 1"
    by (simp add: required_agents_def)
  have nofile: "Located (output_prefixes ! 1) None \<in> set (trace (snd run_silent_2))"
    by code_simp
  have none: "falsy None" by (simp add: falsy_def)
  from missing_output_fails_run [OF run tr k exit0 script nofile none] exit0 nofile
  show ?thesis
    by (simp add: output_prefixes_def missing_output_errors_def)
qed

text \<open>The claim as stated fails: when the second stage exits with code 0 and writes no
  output file, no stage is recorded as the failed one.\<close>

theorem missing_output_leaves_failed_at_unset:
  "outcomes (trace (snd run_silent_2)) ! 1 = Completed 0 ''nothing to do'' []
   \<and> located (trace (snd run_silent_2)) ! 1 = None
   \<and> pr_success (fst run_silent_2) = Some False
   \<and> pr_failed_at (fst run_silent_2) = None"
  by code_simp

text \<open>
  Claim C8. When the three stages of a run exit with code 0 and the three output files
  are found, the run is reported as a success, with the final output file and the results
  directory, whatever the copies into the results directory do. Nothing is assumed about
  them; in the example run that follows, the first copy raises and the other two are
  skipped.
\<close>

theorem copy_failure_is_not_fatal:
  assumes run: "run_complete_pipeline rt c cbr_path td w0 = (r, w')"
    and tr: "trace w' = trace w0 @ evs"
    and stages_ok: "map launch_ok (outcomes evs) = [True, True, True]"
    and located_ok: "map falsy (located evs) = [False, False, False]"
  shows "pr_success r = Some True \<and> pr_failed_at r = None \<and> pr_error r = None
       \<and> pr_final_output_file r = last (located evs)
       \<and> pr_results_directory r = Some (results_dir c)"
  using run
proof (cases rule: pipeline_cases)
  case (archived o1 s1 a1 o2 s2 a2 o3 s3 a3 cs)
  then show ?thesis
    using tr copies_silent [OF archived(2)]
    by (auto simp add: outcomes_def launches_append located_append)
qed (use tr stages_ok located_ok in \<open>auto simp add: outcomes_def falsy_def\<close>)

theorem copy_failure_is_not_fatal_witness:
  "map launch_ok (outcomes (trace (snd run_copy_fails))) = [True, True, True]
   \<and> map falsy (located (trace (snd run_copy_fails))) = [False, False, False]
   \<and> Copied ''agent_1_output_105.json'' ''results_pipeline_100/agent_1_output.json'' False
       \<in> set (trace (snd run_copy_fails))
   \<and> pr_success (fst run_copy_fails) = Some True
   \<and> pr_failed_at (fst run_copy_fails) = None
   \<and> pr_error (fst run_copy_fails) = None
   \<and> pr_final_output_file (fst run_copy_fails) = Some ''final_output_115.json''
   \<and> pr_results_directory (fst run_copy_fails) = Some ''results_pipeline_100''"
proof -
  have run: "run_complete_pipeline (demo_rt good_agents False) demo_coordinator ''comic.cbz'' 75
               demo_world = (fst run_copy_fails, snd run_copy_fails)"
    by (simp add: run_copy_fails_def)
  have tr: "trace (snd run_copy_fails) = trace demo_world @ trace (snd run_copy_fails)"
    by (simp add: demo_world_def)
  have ok: "map launch_ok (outcomes (trace (snd run_copy_fails))) = [True, True, True]"
    by code_simp
  have loc: "map falsy (located (trace (snd run_copy_fails))) = [False, False, False]"
    by code_simp
  have copy: "Copied ''agent_1_output_105.json'' ''results_pipeline_100/agent_1_output.json''
                False \<in> set (trace (snd run_copy_fails))"
    by code_simp
  have last: "last (located (trace (snd run_copy_fails))) = Some ''final_output_115.json''"
    by code_simp
  from copy_failure_is_not_fatal [OF run tr ok loc] ok loc copy last show ?thesis
    by (simp add: demo_coordinator_def)
qed

lemma run_agent_reads_600:
  assumes "\<forall>cmd e. sp cmd 600 e = subprocess_run rt cmd 600 e"
  shows "run_agent (rt\<lparr>subprocess_run := sp\<rparr>) agent_script args stage_name w
           = run_agent rt agent_script args stage_name w"
  using assms by (simp add: run_agent_def Let_def case_prod_beta split: proc_outcome.splits)

lemma fields_ignore_subprocess:
  "sys_executable (rt\<lparr>subprocess_run := sp\<rparr>) = sys_executable rt"
  "time_time (rt\<lparr>subprocess_run := sp\<rparr>) = time_time rt"
  "path_exists (rt\<lparr>subprocess_run := sp\<rparr>) = path_exists rt"
  "listdir (rt\<lparr>subprocess_run := sp\<rparr>) = listdir rt"
  "getmtime (rt\<lparr>subprocess_run := sp\<rparr>) = getmtime rt"
  "shutil_copy (rt\<lparr>subprocess_run := sp\<rparr>) = shutil_copy rt"
  by simp_all

lemma find_latest_ignores_subprocess:
  "find_latest_output_file (rt\<lparr>subprocess_run := sp\<rparr>) pattern w
     = find_latest_output_file rt pattern w"
  unfolding find_latest_output_file_def fields_ignore_subprocess by (rule refl)

lemma validate_inputs_ignores_subprocess:
  "validate_inputs (rt\<lparr>subprocess_run := sp\<rparr>) c cbr_path w = validate_inputs rt c cbr_path w"
  unfolding validate_inputs_def fields_ignore_subprocess by (rule refl)

lemma copy_results_ignores_subprocess:
  "copy_results (rt\<lparr>subprocess_run := sp\<rparr>) c a1 a2 a3 w = copy_results rt c a1 a2 a3 w"
  unfolding copy_results_def copy_file_def fields_ignore_subprocess by (rule refl)

lemma pipeline_reads_600:
  assumes "\<forall>cmd e. sp cmd 600 e = subprocess_run rt cmd 600 e"
  shows "run_complete_pipeline (rt\<lparr>subprocess_run := sp\<rparr>) c cbr_path td w
           = run_complete_pipeline rt c cbr_path td w"
  unfolding run_complete_pipeline_def run_agent_reads_600 [where sp = sp and rt = rt, OF assms]
    find_latest_ignores_subprocess validate_inputs_ignores_subprocess
    copy_results_ignores_subprocess fields_ignore_subprocess
  by (rule refl)

text \<open>
  Claim C10. \<^verbatim>\<open>run_agent\<close> has no timeout parameter and calls
  \<^verbatim>\<open>subprocess.run\<close> with the timeout 600 whatever its arguments are: its
  result, and the result of a whole run of the orchestrator, stay the same when
  \<^verbatim>\<open>subprocess.run\<close> is replaced by any function that agrees with it at the
  timeout 600, so no other timeout is ever asked for; the outcome that \<^verbatim>\<open>run_agent\<close>
  records and reports is the outcome of the call at 600; and every launch of a run of the
  orchestrator carries the timeout 600.
\<close>

theorem timeout_is_fixed:
  assumes same: "\<forall>cmd e. sp cmd 600 e = subprocess_run rt cmd 600 e"
  shows "run_agent (rt\<lparr>subprocess_run := sp\<rparr>) agent_script args stage_name w
           = run_agent rt agent_script args stage_name w
   \<and> run_complete_pipeline (rt\<lparr>subprocess_run := sp\<rparr>) c cbr_path td w
           = run_complete_pipeline rt c cbr_path td w
   \<and> trace (snd (run_agent rt agent_script args stage_name w))
       = trace w @ [Launched ([sys_executable rt, agent_script] @ args) 600
                      (fst (subprocess_run rt ([sys_executable rt, agent_script] @ args) 600
                              (snd (time_time rt (ext w)))))]
   \<and> sr_success (fst (run_agent rt agent_script args stage_name w))
       = launch_ok (fst (subprocess_run rt ([sys_executable rt, agent_script] @ args) 600
                           (snd (time_time rt (ext w)))))
   \<and> launch_timeouts (trace (snd (run_agent rt agent_script args stage_name w)))
       = launch_timeouts (trace w) @ [600]
   \<and> launch_timeouts (trace (snd (run_complete_pipeline rt c cbr_path td w)))
       = launch_timeouts (trace w)
         @ replicate (length (stage_list (fst (run_complete_pipeline rt c cbr_path td w)))) 600"
proof (intro conjI)
  show "run_agent (rt\<lparr>subprocess_run := sp\<rparr>) agent_script args stage_name w
           = run_agent rt agent_script args stage_name w"
    using same by (rule run_agent_reads_600)
  show "run_complete_pipeline (rt\<lparr>subprocess_run := sp\<rparr>) c cbr_path td w
           = run_complete_pipeline rt c cbr_path td w"
    using same by (rule pipeline_reads_600)
  show tr: "trace (snd (run_agent rt agent_script args stage_name w))
       = trace w @ [Launched ([sys_executable rt, agent_script] @ args) 600
                      (fst (subprocess_run rt ([sys_executable rt, agent_script] @ args) 600
                              (snd (time_time rt (ext w)))))]"
    by (simp add: run_agent_def Let_def case_prod_beta split: proc_outcome.splits)
  show "sr_success (fst (run_agent rt agent_script args stage_name w))
       = launch_ok (fst (subprocess_run rt ([sys_executable rt, agent_script] @ args) 600
                           (snd (time_time rt (ext w)))))"
    by (simp add: run_agent_def Let_def case_prod_beta split: proc_outcome.splits)
  show "launch_timeouts (trace (snd (run_agent rt agent_script args stage_name w)))
       = launch_timeouts (trace w) @ [600]"
    by (simp add: tr launch_timeouts_def launches_append)
  obtain r w' where run: "run_complete_pipeline rt c cbr_path td w = (r, w')" by fastforce
  from run have "launch_timeouts (trace w')
                   = launch_timeouts (trace w) @ replicate (length (stage_list r)) 600"
  proof (cases rule: pipeline_cases)
    case (archived o1 s1 a1 o2 s2 a2 o3 s3 a3 cs)
    then show ?thesis
      using copies_silent [OF archived(2)]
      by (simp add: launch_timeouts_def launches_append stage_list_def)
  qed (simp_all add: launch_timeouts_def launches_append stage_list_def)
  with run show "launch_timeouts (trace (snd (run_complete_pipeline rt c cbr_path td w)))
     = launch_timeouts (trace w)
       @ replicate (length (stage_list (fst (run_complete_pipeline rt c cbr_path td w)))) 600"
    by simp
qed

theorem timeout_is_fixed_witness:
  "(\<forall>cmd e. only_600 (demo_rt good_agents True) cmd 600 e
              = subprocess_run (demo_rt good_agents True) cmd 600 e)
   \<and> run_only_600
       = run_complete_pipeline (demo_rt good_agents True) demo_coordinator ''comic.cbz'' 75
           demo_world
   \<and> fst (only_600 (demo_rt good_agents True)
             [''python3'', ''agent_1_comic_processor.py'', ''comic.cbz'', ''sk-test'', ''75'']
             599 (ext demo_world)) = Raised ''unexpected timeout''
   \<and> pr_success (fst run_only_600) = Some True
   \<and> launch_timeouts (trace (snd run_only_600)) = [600, 600, 600]"
proof -
  have same: "\<forall>cmd e. only_600 (demo_rt good_agents True) cmd 600 e
                = subprocess_run (demo_rt good_agents True) cmd 600 e"
    by (simp add: only_600_def)
  have other: "fst (only_600 (demo_rt good_agents True)
             [''python3'', ''agent_1_comic_processor.py'', ''comic.cbz'', ''sk-test'', ''75'']
             599 (ext demo_world)) = Raised ''unexpected timeout''"
    by (simp add: only_600_def)
  have concrete: "pr_success (fst run_only_600) = Some True
                  \<and> launch_timeouts (trace (snd run_only_600)) = [600, 600, 600]"
    by code_simp
  from timeout_is_fixed [where sp = "only_600 (demo_rt good_agents True)"
         and rt = "demo_rt good_agents True" and c = demo_coordinator
         and cbr_path = "''comic.cbz''" and td = 75 and w = demo_world, OF same]
    same other concrete
  show ?thesis
    by (simp add: run_only_600_def)
qed

subsection \<open>Report generator\<close>

text \<open>
  Claim C9. \<^verbatim>\<open>generate_pipeline_report\<close> leaves the world as it was, and its text
  depends on the world in no way: rendering the same results a second time, or in any
  other world, gives the same text.
\<close>

theorem report_is_pure:
  "snd (generate_pipeline_report rt pipeline_results w) = w
   \<and> fst (generate_pipeline_report rt pipeline_results
            (snd (generate_pipeline_report rt pipeline_results w)))
       = fst (generate_pipeline_report rt pipeline_results w)
   \<and> fst (generate_pipeline_report rt pipeline_results w')
       = fst (generate_pipeline_report rt pipeline_results w)"
  by (simp add: generate_pipeline_report_def Let_def)

end
